theory Spec2Isabelle
  imports Main "HOL-Library.AList" "HOL-Library.Sublist"
begin

section \<open>Python values used by the container builder\<close>

text \<open>
  Python dictionaries keep their insertion order: assigning to a key that is present
  replaces the value in place, assigning to a new key appends the entry. That is
  \<^const>\<open>AList.update\<close> on an association list, which is how every dictionary of the
  builder is modelled. Looking a key up is \<^const>\<open>map_of\<close>.
\<close>

type_synonym ('k, 'v) dict = "('k \<times> 'v) list"

text \<open>\<^verbatim>\<open>d.update(other)\<close> and the loops \<^verbatim>\<open>for k, v in other.items(): d[k] = v\<close>.\<close>

definition dict_update :: "('k, 'v) dict \<Rightarrow> ('k, 'v) dict \<Rightarrow> ('k, 'v) dict" where
  "dict_update d other = foldl (\<lambda>acc kv. AList.update (fst kv) (snd kv) acc) d other"

text \<open>\<^verbatim>\<open>sep.join(xs)\<close>\<close>

fun join :: "string \<Rightarrow> string list \<Rightarrow> string" where
  "join sep [] = []"
| "join sep [x] = x"
| "join sep (x # y # ys) = x @ sep @ join sep (y # ys)"

text \<open>\<^verbatim>\<open>'"{0}"'.format(w)\<close> and \<^verbatim>\<open>'"%s"' % entry\<close> on a string.\<close>

definition quoted :: "string \<Rightarrow> string" where
  "quoted w = [CHR 0x22] @ w @ [CHR 0x22]"

text \<open>
  \<^verbatim>\<open>str(n)\<close> on an integer: decimal digits, with a minus sign when negative. A digit is
  looked up in the table of the ten digit characters; \<^verbatim>\<open>digits_nat\<close> only asks for indices
  below ten.
\<close>

definition digit_char :: "nat \<Rightarrow> char" where
  "digit_char d = ''0123456789'' ! d"

fun digits_nat :: "nat \<Rightarrow> string" where
  "digits_nat n = (if n < 10 then [digit_char n] else digits_nat (n div 10) @ [digit_char (n mod 10)])"

declare digits_nat.simps [simp del]

definition str_int :: "int \<Rightarrow> string" where
  "str_int i = (if i < 0 then CHR ''-'' # digits_nat (nat (- i)) else digits_nat (nat i))"

text \<open>\<^verbatim>\<open>s.lower()\<close> on the ASCII letters, and \<^verbatim>\<open>s.startswith(p)\<close>.\<close>

definition lower_char :: "char \<Rightarrow> char" where
  "lower_char c =
     (case map_of (zip ''ABCDEFGHIJKLMNOPQRSTUVWXYZ'' ''abcdefghijklmnopqrstuvwxyz'') c of
        Some l \<Rightarrow> l
      | None \<Rightarrow> c)"

definition lower :: "string \<Rightarrow> string" where
  "lower s = map lower_char s"

definition startswith :: "string \<Rightarrow> string \<Rightarrow> bool" where
  "startswith s p = (take (length p) s = p)"

text \<open>
  The truth value of an optional string attribute (\<^verbatim>\<open>if self.name:\<close>):
  \<^verbatim>\<open>None\<close> and the empty string are both false.
\<close>

fun truthy :: "string option \<Rightarrow> bool" where
  "truthy None = False"
| "truthy (Some s) = (s \<noteq> [])"

section \<open>Constants of \<^verbatim>\<open>container_builder.py\<close>\<close>

definition RIPTIDE_DOCKER_LABEL_IS_RIPTIDE :: string where
  "RIPTIDE_DOCKER_LABEL_IS_RIPTIDE = ''riptide''"

definition RIPTIDE_DOCKER_LABEL_SERVICE :: string where
  "RIPTIDE_DOCKER_LABEL_SERVICE = ''riptide_service''"

definition RIPTIDE_DOCKER_LABEL_PROJECT :: string where
  "RIPTIDE_DOCKER_LABEL_PROJECT = ''riptide_project''"

definition RIPTIDE_DOCKER_LABEL_MAIN :: string where
  "RIPTIDE_DOCKER_LABEL_MAIN = ''riptide_main''"

definition RIPTIDE_DOCKER_LABEL_HTTP_PORT :: string where
  "RIPTIDE_DOCKER_LABEL_HTTP_PORT = ''riptide_port''"

definition ENTRYPOINT_CONTAINER_PATH :: string where
  "ENTRYPOINT_CONTAINER_PATH = ''/entrypoint_riptide.sh''"

definition EENV_DONT_RUN_CMD :: string where
  "EENV_DONT_RUN_CMD = ''RIPTIDE__DOCKER_DONT_RUN_CMD''"

definition EENV_USER :: string where
  "EENV_USER = ''RIPTIDE__DOCKER_USER''"

definition EENV_USER_RUN :: string where
  "EENV_USER_RUN = ''RIPTIDE__DOCKER_USER_RUN''"

definition EENV_GROUP :: string where
  "EENV_GROUP = ''RIPTIDE__DOCKER_GROUP''"

definition EENV_RUN_MAIN_CMD_AS_USER :: string where
  "EENV_RUN_MAIN_CMD_AS_USER = ''RIPTIDE__DOCKER_RUN_MAIN_CMD_AS_USER''"

definition EENV_ORIGINAL_ENTRYPOINT :: string where
  "EENV_ORIGINAL_ENTRYPOINT = ''RIPTIDE__DOCKER_ORIGINAL_ENTRYPOINT''"

definition EENV_COMMAND_LOG_PREFIX :: string where
  "EENV_COMMAND_LOG_PREFIX = ''RIPTIDE__DOCKER_CMD_LOGGING_''"

definition DOCKER_ENGINE_HTTP_PORT_BND_START :: int where
  "DOCKER_ENGINE_HTTP_PORT_BND_START = 30000"

lemmas builder_constants =
  RIPTIDE_DOCKER_LABEL_IS_RIPTIDE_def RIPTIDE_DOCKER_LABEL_SERVICE_def
  RIPTIDE_DOCKER_LABEL_PROJECT_def RIPTIDE_DOCKER_LABEL_MAIN_def
  RIPTIDE_DOCKER_LABEL_HTTP_PORT_def ENTRYPOINT_CONTAINER_PATH_def
  EENV_DONT_RUN_CMD_def EENV_USER_def EENV_USER_RUN_def EENV_GROUP_def
  EENV_RUN_MAIN_CMD_AS_USER_def EENV_ORIGINAL_ENTRYPOINT_def
  EENV_COMMAND_LOG_PREFIX_def DOCKER_ENGINE_HTTP_PORT_BND_START_def

section \<open>The entrypoint override protocol\<close>

text \<open>
  The original entrypoint of an image is \<^verbatim>\<open>None\<close>, a string (shell form) or a list of
  strings (exec form).
\<close>

datatype entrypoint = EpNone | EpStr string | EpList "string list"

text \<open>
  \<^verbatim>\<open>parse_entrypoint\<close> returns the dictionary of variables for the wrapper script. In the
  exec form it takes the executable off the caller's list with \<^verbatim>\<open>entrypoint.pop(0)\<close>, so
  the model returns the argument as it is after the call next to the dictionary.
  \<^verbatim>\<open>not entrypoint\<close> holds for \<^verbatim>\<open>None\<close>, for the empty string and for the empty list.
\<close>

fun parse_entrypoint :: "entrypoint \<Rightarrow> (string, string) dict \<times> entrypoint" where
  "parse_entrypoint EpNone = ([(EENV_ORIGINAL_ENTRYPOINT, [])], EpNone)"
| "parse_entrypoint (EpStr []) = ([(EENV_ORIGINAL_ENTRYPOINT, [])], EpStr [])"
| "parse_entrypoint (EpList []) = ([(EENV_ORIGINAL_ENTRYPOINT, [])], EpList [])"
| "parse_entrypoint (EpList (command # entrypoint)) =
     (let arguments = join '' '' (map quoted entrypoint)
      in ([(EENV_ORIGINAL_ENTRYPOINT, command @ '' '' @ arguments)], EpList entrypoint))"
| "parse_entrypoint (EpStr entrypoint) =
     ([(EENV_ORIGINAL_ENTRYPOINT, ''/bin/sh -c '' @ entrypoint), (EENV_DONT_RUN_CMD, ''true'')],
      EpStr entrypoint)"

section \<open>The container builder\<close>

text \<open>The command of a container is a string or a list of strings.\<close>

datatype command = CmdStr string | CmdList "string list"

text \<open>The fields of a \<^verbatim>\<open>docker.types.Mount\<close> that \<^verbatim>\<open>set_mount\<close> fills in.\<close>

record mount =
  Target :: string
  Source :: string
  Type :: string
  ReadOnly :: bool
  Consistency :: string

record container_builder =
  env :: "(string, string) dict"
  labels :: "(string, string) dict"
  mounts :: "(string, mount) dict"
  ports :: "(int, int) dict"
  network :: "string option"
  name :: "string option"
  entrypoint :: "string option"
  command :: command
  args :: "string list"
  work_dir :: "string option"
  image :: string
  run_as_root :: bool
  hostname :: "string option"

definition set_env :: "string \<Rightarrow> string \<Rightarrow> container_builder \<Rightarrow> container_builder" where
  "set_env nm val b = b\<lparr>env := AList.update nm val (env b)\<rparr>"

definition set_label :: "string \<Rightarrow> string \<Rightarrow> container_builder \<Rightarrow> container_builder" where
  "set_label nm val b = b\<lparr>labels := AList.update nm val (labels b)\<rparr>"

definition set_mount :: "string \<Rightarrow> string \<Rightarrow> string \<Rightarrow> container_builder \<Rightarrow> container_builder" where
  "set_mount host_path container_path mode b =
     b\<lparr>mounts := AList.update host_path
          \<lparr>Target = container_path, Source = host_path, Type = ''bind'',
           ReadOnly = (mode = ''ro''), Consistency = ''delegated''\<rparr> (mounts b)\<rparr>"

definition set_port :: "int \<Rightarrow> int \<Rightarrow> container_builder \<Rightarrow> container_builder" where
  "set_port cnt host b = b\<lparr>ports := AList.update cnt host (ports b)\<rparr>"

definition set_network :: "string \<Rightarrow> container_builder \<Rightarrow> container_builder" where
  "set_network nw b = b\<lparr>network := Some nw\<rparr>"

definition set_name :: "string \<Rightarrow> container_builder \<Rightarrow> container_builder" where
  "set_name nm b = b\<lparr>name := Some nm\<rparr>"

definition set_entrypoint :: "string \<Rightarrow> container_builder \<Rightarrow> container_builder" where
  "set_entrypoint ep b = b\<lparr>entrypoint := Some ep\<rparr>"

definition set_args :: "string list \<Rightarrow> container_builder \<Rightarrow> container_builder" where
  "set_args as b = b\<lparr>args := as\<rparr>"

definition set_workdir :: "string \<Rightarrow> container_builder \<Rightarrow> container_builder" where
  "set_workdir wd b = b\<lparr>work_dir := Some wd\<rparr>"

definition set_hostname :: "string \<Rightarrow> container_builder \<Rightarrow> container_builder" where
  "set_hostname hn b = b\<lparr>hostname := Some hn\<rparr>"

text \<open>\<^verbatim>\<open>ContainerBuilder.__init__(image, command)\<close>\<close>

definition ContainerBuilder :: "string \<Rightarrow> command \<Rightarrow> container_builder" where
  "ContainerBuilder img cmd =
     (set_label RIPTIDE_DOCKER_LABEL_IS_RIPTIDE ''1''
        \<lparr>env = [], labels = [], mounts = [], ports = [], network = None, name = None,
         entrypoint = None, command = cmd, args = [], work_dir = None, image = img,
         run_as_root = False, hostname = None\<rparr>)
     \<lparr>run_as_root := False, hostname := None\<rparr>"

text \<open>
  The keyword arguments of \<^verbatim>\<open>containers.run\<close> that \<^verbatim>\<open>build_docker_api\<close> returns. A key
  that the function leaves out of the dictionary is \<open>None\<close> here.
\<close>

record api_args =
  arg_detach :: bool
  arg_remove :: bool
  arg_image :: string
  arg_command :: command
  arg_name :: "string option"
  arg_network :: "string option"
  arg_entrypoint :: "string list option"
  arg_working_dir :: "string option"
  arg_user :: "int option"
  arg_hostname :: "string option"
  arg_environment :: "(string, string) dict"
  arg_labels :: "(string, string) dict"
  arg_ports :: "(int, int) dict"
  arg_mounts :: "mount list"

fun str_of_command :: "command \<Rightarrow> string" where
  "str_of_command (CmdList l) = join '' '' l"
| "str_of_command (CmdStr s) = s"

definition build_docker_api :: "bool \<Rightarrow> bool \<Rightarrow> container_builder \<Rightarrow> api_args" where
  "build_docker_api detach remove b =
     (let str_command = str_of_command (command b)
      in \<lparr>arg_detach = detach,
          arg_remove = remove,
          arg_image = image b,
          arg_command =
            (if length (args b) > 0
             then CmdStr (str_command @ '' '' @ join '' '' (map quoted (args b)))
             else command b),
          arg_name = (if truthy (name b) then name b else None),
          arg_network = (if truthy (network b) then network b else None),
          arg_entrypoint =
            (if truthy (entrypoint b) then map_option (\<lambda>e. [e]) (entrypoint b) else None),
          arg_working_dir = (if truthy (work_dir b) then work_dir b else None),
          arg_user = (if run_as_root b then Some 0 else None),
          arg_hostname = (if truthy (hostname b) then hostname b else None),
          arg_environment = env b,
          arg_labels = labels b,
          arg_ports = ports b,
          arg_mounts = map snd (mounts b)\<rparr>)"

text \<open>\<^verbatim>\<open>if self.x: shell += [flag, self.x]\<close>\<close>

fun cli_option :: "string \<Rightarrow> string option \<Rightarrow> string list" where
  "cli_option flag None = []"
| "cli_option flag (Some s) = (if s \<noteq> [] then [flag, s] else [])"

text \<open>
  \<^verbatim>\<open>build_docker_cli\<close> reads \<^verbatim>\<open>platform.system()\<close>; the model takes that string as its
  first argument.
\<close>

definition build_docker_cli :: "string \<Rightarrow> container_builder \<Rightarrow> string list" where
  "build_docker_cli system b =
     (let shell = [''docker'', ''run'', ''--rm'', ''-it''];
          shell = shell @ cli_option ''--name'' (name b);
          shell = shell @ cli_option ''--network'' (network b);
          shell = shell @ cli_option ''--entrypoint'' (entrypoint b);
          shell = shell @ cli_option ''-w'' (work_dir b);
          shell = shell @ (if run_as_root b then [''-u'', str_int 0] else []);
          shell = shell @ cli_option ''--hostname'' (hostname b);
          shell = shell @ concat (map (\<lambda>(key, val). [''-e'', key @ ''='' @ val]) (env b));
          shell = shell @ concat (map (\<lambda>(key, val). [''--label'', key @ ''='' @ val]) (labels b));
          shell = shell @ concat (map (\<lambda>(container, host).
                     [''-p'', str_int host @ '':'' @ str_int container]) (ports b));
          mac_add = (if startswith (lower system) ''mac'' then '':delegated'' else []);
          shell = shell @ concat (map (\<lambda>m.
                     (let mode = (if ReadOnly m then ''ro'' else ''rw'')
                      in [''-v'', Source m @ '':'' @ Target m @ '':'' @ mode @ mac_add]))
                     (map snd (mounts b)));
          cmd = str_of_command (command b)
      in shell @ [image b, cmd @ '' '' @ join '' '' (map quoted (args b))])"




section \<open>Initialising a builder from a service or a command\<close>

text \<open>
  The configuration documents belong to another package. A service is modelled by what
  the builder reads from it: the keys \<^verbatim>\<open>$name\<close>, \<^verbatim>\<open>port\<close>, \<^verbatim>\<open>roles\<close>, \<^verbatim>\<open>logging\<close> (with its
  optional \<^verbatim>\<open>commands\<close>), \<^verbatim>\<open>dont_create_user\<close> and \<^verbatim>\<open>run_as_current_user\<close>, the results of
  \<^verbatim>\<open>collect_volumes()\<close>, \<^verbatim>\<open>collect_environment()\<close> and \<^verbatim>\<open>collect_ports()\<close>, and the name of
  its project. An optional key that is absent is \<open>None\<close>.
\<close>

record volume =
  vol_bind :: string
  vol_mode :: "string option"

record service =
  svc_name :: string
  svc_port :: "int option"
  svc_roles :: "string list option"
  svc_logging :: "(string, string) dict option option"
  svc_dont_create_user :: bool
  svc_run_as_current_user :: bool
  svc_volumes :: "(string, volume) dict"
  svc_environment :: "(string, string) dict"
  svc_ports :: "(int, int) dict"
  svc_project_name :: string

text \<open>The image metadata: the original entrypoint and the optional key \<^verbatim>\<open>User\<close>.\<close>

record image_config =
  Entrypoint :: entrypoint
  User :: "string option"

definition set_envs :: "(string, string) dict \<Rightarrow> container_builder \<Rightarrow> container_builder" where
  "set_envs items b = foldl (\<lambda>acc kv. set_env (fst kv) (snd kv) acc) b items"

definition set_labels :: "(string, string) dict \<Rightarrow> container_builder \<Rightarrow> container_builder" where
  "set_labels items b = foldl (\<lambda>acc kv. set_label (fst kv) (snd kv) acc) b items"

definition set_ports :: "(int, int) dict \<Rightarrow> container_builder \<Rightarrow> container_builder" where
  "set_ports items b = foldl (\<lambda>acc kv. set_port (fst kv) (snd kv) acc) b items"

text \<open>\<^verbatim>\<open>volume['mode'] or 'rw'\<close>\<close>

definition mode_or_rw :: "string option \<Rightarrow> string" where
  "mode_or_rw m = (case m of None \<Rightarrow> ''rw'' | Some s \<Rightarrow> if s = [] then ''rw'' else s)"

definition set_volumes :: "(string, volume) dict \<Rightarrow> container_builder \<Rightarrow> container_builder" where
  "set_volumes items b =
     foldl (\<lambda>acc hv. set_mount (fst hv) (vol_bind (snd hv)) (mode_or_rw (vol_mode (snd hv))) acc)
       b items"

text \<open>
  \<^verbatim>\<open>enable_riptide_entrypoint\<close>: the path of the wrapper script on the host,
  \<^verbatim>\<open>os.path.join(riptide_engine_docker_assets_dir(), 'entrypoint.sh')\<close>, is an argument of
  the model. The image metadata is returned as \<^verbatim>\<open>parse_entrypoint\<close> leaves it.
\<close>

definition enable_riptide_entrypoint ::
  "string \<Rightarrow> image_config \<Rightarrow> container_builder \<Rightarrow> container_builder \<times> image_config" where
  "enable_riptide_entrypoint entrypoint_script ic b =
     (let b = b\<lparr>run_as_root := True\<rparr>;
          b = set_mount entrypoint_script ENTRYPOINT_CONTAINER_PATH ''ro'' b;
          parsed = parse_entrypoint (Entrypoint ic);
          b = set_envs (fst parsed) b
      in (set_entrypoint ENTRYPOINT_CONTAINER_PATH b, ic\<lparr>Entrypoint := snd parsed\<rparr>))"

text \<open>\<^verbatim>\<open>_init_common\<close>, on the volumes and the environment that the document collects.\<close>

definition init_common ::
  "string \<Rightarrow> (string, volume) dict \<Rightarrow> (string, string) dict \<Rightarrow> image_config \<Rightarrow>
     container_builder \<Rightarrow> container_builder \<times> image_config" where
  "init_common entrypoint_script volumes environment ic b =
     (let r = enable_riptide_entrypoint entrypoint_script ic b;
          b = set_volumes volumes (fst r);
          b = set_envs environment b
      in (b, snd r))"

definition service_collect_logging_commands :: "service \<Rightarrow> (string, string) dict" where
  "service_collect_logging_commands s =
     (case svc_logging s of
        Some (Some commands) \<Rightarrow>
          foldl (\<lambda>environment kv. AList.update (EENV_COMMAND_LOG_PREFIX @ fst kv) (snd kv) environment)
            [] commands
      | _ \<Rightarrow> [])"

definition service_collect_entrypoint_user_settings ::
  "service \<Rightarrow> int \<Rightarrow> int \<Rightarrow> image_config \<Rightarrow> (string, string) dict" where
  "service_collect_entrypoint_user_settings s user user_group ic =
     (let environment = [];
          environment =
            (if \<not> svc_dont_create_user s
             then AList.update EENV_GROUP (str_int user_group)
                    (AList.update EENV_USER (str_int user) environment)
             else environment)
      in if svc_run_as_current_user s
         then AList.update EENV_RUN_MAIN_CMD_AS_USER ''yes'' environment
         else (case User ic of
                 Some u \<Rightarrow>
                   if u \<noteq> []
                   then AList.update EENV_USER_RUN u
                          (AList.update EENV_RUN_MAIN_CMD_AS_USER ''yes'' environment)
                   else environment
               | None \<Rightarrow> environment))"

definition service_collect_labels :: "service \<Rightarrow> string \<Rightarrow> (string, string) dict" where
  "service_collect_labels s project_name =
     (let labels =
            [(RIPTIDE_DOCKER_LABEL_IS_RIPTIDE, ''1''),
             (RIPTIDE_DOCKER_LABEL_PROJECT, project_name),
             (RIPTIDE_DOCKER_LABEL_SERVICE, svc_name s),
             (RIPTIDE_DOCKER_LABEL_MAIN, ''0'')]
      in (case svc_roles s of
            Some roles \<Rightarrow>
              if ''main'' \<in> set roles then AList.update RIPTIDE_DOCKER_LABEL_MAIN ''1'' labels
              else labels
          | None \<Rightarrow> labels))"

text \<open>
  \<^verbatim>\<open>init_from_service\<close>: \<^verbatim>\<open>getuid()\<close> and \<^verbatim>\<open>getgid()\<close> of the invoking user are arguments of the
  model.
\<close>

definition init_from_service ::
  "string \<Rightarrow> int \<Rightarrow> int \<Rightarrow> service \<Rightarrow> image_config \<Rightarrow> container_builder \<Rightarrow>
     container_builder \<times> image_config" where
  "init_from_service entrypoint_script uid gid s ic b =
     (let r = init_common entrypoint_script (svc_volumes s) (svc_environment s) ic b;
          b = fst r;
          ic = snd r;
          labels = service_collect_labels s (svc_project_name s);
          ports = svc_ports s;
          environment_updates = service_collect_logging_commands s;
          environment_updates =
            dict_update environment_updates (service_collect_entrypoint_user_settings s uid gid ic);
          b = set_envs environment_updates b;
          b = set_labels labels b;
          b = set_ports ports b
      in (b, ic))"

text \<open>
  \<^verbatim>\<open>service_add_main_port\<close>: the port allocator \<^verbatim>\<open>find_open_port_starting_at\<close> belongs to
  another package and probes the host; it is an argument of the model.
\<close>

definition service_add_main_port ::
  "(int \<Rightarrow> int) \<Rightarrow> service \<Rightarrow> container_builder \<Rightarrow> container_builder" where
  "service_add_main_port find_open_port_starting_at s b =
     (case svc_port s of
        Some port \<Rightarrow>
          (let main_port = find_open_port_starting_at DOCKER_ENGINE_HTTP_PORT_BND_START;
               b = set_label RIPTIDE_DOCKER_LABEL_HTTP_PORT (str_int main_port) b
           in set_port port main_port b)
      | None \<Rightarrow> b)"

definition init_from_command ::
  "string \<Rightarrow> (string, volume) dict \<Rightarrow> (string, string) dict \<Rightarrow> image_config \<Rightarrow>
     container_builder \<Rightarrow> container_builder \<times> image_config" where
  "init_from_command entrypoint_script volumes environment ic b =
     init_common entrypoint_script volumes environment ic b"

definition get_network_name :: "string \<Rightarrow> string" where
  "get_network_name project_name = ''riptide__'' @ project_name"

definition get_service_container_name :: "string \<Rightarrow> string \<Rightarrow> string" where
  "get_service_container_name project_name service_name =
     ''riptide__'' @ project_name @ ''__'' @ service_name"

section \<open>Sequences of builder calls\<close>

text \<open>The four mutators that write to a dictionary of the builder, as calls.\<close>

datatype map_call =
    SetEnv string string
  | SetLabel string string
  | SetMount string string string
  | SetPort int int

fun map_call_apply :: "map_call \<Rightarrow> container_builder \<Rightarrow> container_builder" where
  "map_call_apply (SetEnv k v) b = set_env k v b"
| "map_call_apply (SetLabel k v) b = set_label k v b"
| "map_call_apply (SetMount h c m) b = set_mount h c m b"
| "map_call_apply (SetPort c h) b = set_port c h b"

definition run_map_calls :: "map_call list \<Rightarrow> container_builder \<Rightarrow> container_builder" where
  "run_map_calls cs b = foldl (\<lambda>acc c. map_call_apply c acc) b cs"

text \<open>
  What a sequence of calls writes to each dictionary, in call order. The last call on a
  key \<open>k\<close> is the first entry for \<open>k\<close> in the reversed list, that is
  \<open>map_of (rev ws) k\<close>.
\<close>

fun env_writes :: "map_call list \<Rightarrow> (string, string) dict" where
  "env_writes [] = []"
| "env_writes (SetEnv k v # cs) = (k, v) # env_writes cs"
| "env_writes (_ # cs) = env_writes cs"

fun label_writes :: "map_call list \<Rightarrow> (string, string) dict" where
  "label_writes [] = []"
| "label_writes (SetLabel k v # cs) = (k, v) # label_writes cs"
| "label_writes (_ # cs) = label_writes cs"

fun mount_writes :: "map_call list \<Rightarrow> (string, mount) dict" where
  "mount_writes [] = []"
| "mount_writes (SetMount h c m # cs) =
     (h, \<lparr>Target = c, Source = h, Type = ''bind'', ReadOnly = (m = ''ro''),
          Consistency = ''delegated''\<rparr>) # mount_writes cs"
| "mount_writes (_ # cs) = mount_writes cs"

fun port_writes :: "map_call list \<Rightarrow> (int, int) dict" where
  "port_writes [] = []"
| "port_writes (SetPort c h # cs) = (c, h) # port_writes cs"
| "port_writes (_ # cs) = port_writes cs"

definition last_write :: "('k, 'v) dict \<Rightarrow> 'k \<Rightarrow> 'v option" where
  "last_write ws k = map_of (rev ws) k"

text \<open>The key a call writes to, tagged with its dictionary.\<close>

datatype map_key = EnvKey string | LabelKey string | MountKey string | PortKey int

fun key_of_call :: "map_call \<Rightarrow> map_key" where
  "key_of_call (SetEnv k v) = EnvKey k"
| "key_of_call (SetLabel k v) = LabelKey k"
| "key_of_call (SetMount h c m) = MountKey h"
| "key_of_call (SetPort c h) = PortKey c"

text \<open>Every public mutator of the builder, as a call.\<close>

datatype builder_call =
    MapCall map_call
  | SetNetwork string
  | SetName string
  | SetEntrypoint string
  | SetArgs "string list"
  | SetWorkdir string
  | SetHostname string
  | EnableRiptideEntrypoint string image_config
  | InitFromService string int int service image_config
  | ServiceAddMainPort "int \<Rightarrow> int" service
  | InitFromCommand string "(string, volume) dict" "(string, string) dict" image_config

fun builder_call_apply :: "builder_call \<Rightarrow> container_builder \<Rightarrow> container_builder" where
  "builder_call_apply (MapCall c) b = map_call_apply c b"
| "builder_call_apply (SetNetwork x) b = set_network x b"
| "builder_call_apply (SetName x) b = set_name x b"
| "builder_call_apply (SetEntrypoint x) b = set_entrypoint x b"
| "builder_call_apply (SetArgs x) b = set_args x b"
| "builder_call_apply (SetWorkdir x) b = set_workdir x b"
| "builder_call_apply (SetHostname x) b = set_hostname x b"
| "builder_call_apply (EnableRiptideEntrypoint script ic) b =
     fst (enable_riptide_entrypoint script ic b)"
| "builder_call_apply (InitFromService script uid gid s ic) b =
     fst (init_from_service script uid gid s ic b)"
| "builder_call_apply (ServiceAddMainPort alloc s) b = service_add_main_port alloc s b"
| "builder_call_apply (InitFromCommand script vols environ ic) b =
     fst (init_from_command script vols environ ic b)"

definition run_builder_calls :: "builder_call list \<Rightarrow> container_builder \<Rightarrow> container_builder" where
  "run_builder_calls cs b = foldl (\<lambda>acc c. builder_call_apply c acc) b cs"

text \<open>A call that writes the is-managed label key itself.\<close>

fun overwrites_marker :: "builder_call \<Rightarrow> bool" where
  "overwrites_marker (MapCall (SetLabel k v)) = (k = RIPTIDE_DOCKER_LABEL_IS_RIPTIDE)"
| "overwrites_marker _ = False"

section \<open>The engine\<close>

text \<open>
  A project is modelled by its name and the services section of its app,
  \<^verbatim>\<open>project["app"]["services"]\<close>. The key \<^verbatim>\<open>services\<close> is optional (\<^verbatim>\<open>pull_images\<close> tests for
  it before it reads it), so the section is \<open>None\<close> when the key is absent. A container
  of the runtime is modelled by the two attributes \<^verbatim>\<open>address_for\<close> reads.
\<close>

record project =
  proj_name :: string
  proj_services :: "(string, service) dict option"

record container =
  status :: string
  container_labels :: "(string, string) dict"

text \<open>
  Exceptions. \<^verbatim>\<open>KeyError\<close> and \<^verbatim>\<open>APIError\<close> stand for an instance of the class or of one
  of its subclasses (the error of the Docker client for a container that does not exist
  is an \<^verbatim>\<open>APIError\<close>). \<^verbatim>\<open>OtherError\<close> stands for an exception that is an instance of
  neither, with the name of its class.
\<close>

datatype py_exception = KeyError | APIError | OtherError string

text \<open>
  \<^verbatim>\<open>address_for\<close>: \<^verbatim>\<open>self.client.containers.get\<close> belongs to the Docker client and is an
  argument of the model, a function that returns a container or raises. The subscript
  \<^verbatim>\<open>project["app"]["services"][service_name]\<close> stands before the \<^verbatim>\<open>try\<close> block, so its
  \<^verbatim>\<open>KeyError\<close> leaves the function. Inside the block \<^verbatim>\<open>KeyError\<close> and \<^verbatim>\<open>APIError\<close> are turned
  into \<^verbatim>\<open>None\<close>; every other exception leaves the function. The port of the result is the
  label's string.
\<close>

definition address_for ::
  "(string \<Rightarrow> py_exception + container) \<Rightarrow> project \<Rightarrow> string \<Rightarrow>
     py_exception + (string \<times> string) option" where
  "address_for containers_get project service_name =
     (case proj_services project of
        None \<Rightarrow> Inl KeyError
      | Some services \<Rightarrow>
          (case map_of services service_name of
             None \<Rightarrow> Inl KeyError
           | Some s \<Rightarrow>
               if svc_port s = None then Inr None
               else
                 (let container_name =
                        get_service_container_name (proj_name project) service_name
                  in (case containers_get container_name of
                        Inl KeyError \<Rightarrow> Inr None
                      | Inl APIError \<Rightarrow> Inr None
                      | Inl (OtherError cls) \<Rightarrow> Inl (OtherError cls)
                      | Inr container \<Rightarrow>
                          if status container \<noteq> ''running'' then Inr None
                          else (case map_of (container_labels container)
                                       RIPTIDE_DOCKER_LABEL_HTTP_PORT of
                                  None \<Rightarrow> Inr None
                                | Some port \<Rightarrow> Inr (Some (''127.0.0.1'', port)))))))"









section \<open>Concrete inputs\<close>

text \<open>A service, image metadata and a builder on which the results below are run.\<close>

definition demo_service :: service where
  "demo_service =
     \<lparr>svc_name = ''web'', svc_port = Some 8080, svc_roles = Some [''main''],
      svc_logging = None, svc_dont_create_user = False, svc_run_as_current_user = False,
      svc_volumes = [], svc_environment = [], svc_ports = [], svc_project_name = ''demo''\<rparr>"

definition demo_image :: image_config where
  "demo_image = \<lparr>Entrypoint = EpList [''/bin/foo'', ''a''], User = Some ''www-data''\<rparr>"

definition demo_builder :: container_builder where
  "demo_builder = ContainerBuilder ''img'' (CmdStr ''ls'')"


text \<open>
  A sequence of builder calls that sets another label, names the container, initialises
  the builder from the service and adds the main port.
\<close>

definition demo_calls :: "builder_call list" where
  "demo_calls =
     [MapCall (SetLabel ''l'' ''x''), SetName ''c1'',
      InitFromService ''/assets/entrypoint.sh'' 1000 100 demo_service demo_image,
      ServiceAddMainPort (\<lambda>base. 30005) demo_service]"

text \<open>
  A project that declares the service \<open>web\<close>, a project without a services section, and
  a run in which none of the outside calls of \<^verbatim>\<open>start_project\<close> raises.
\<close>

definition demo_project :: project where
  "demo_project = \<lparr>proj_name = ''demo'', proj_services = Some [(''web'', demo_service)]\<rparr>"

definition bare_project :: project where
  "bare_project = \<lparr>proj_name = ''demo'', proj_services = None\<rparr>"


section \<open>The entrypoint override protocol: results\<close>

text \<open>
  The three-case contract read literally gives every string entrypoint the shell-form
  result. The empty string is a string, and \<^verbatim>\<open>not entrypoint\<close> sends it down the branch of
  the absent entrypoint: the result has the empty original entrypoint and no don't-run
  flag.
\<close>

theorem parse_entrypoint_empty_string_counterexample:
  "fst (parse_entrypoint (EpStr '''')) = [(EENV_ORIGINAL_ENTRYPOINT, '''')]
   \<and> fst (parse_entrypoint (EpStr '''')) \<noteq>
       [(EENV_ORIGINAL_ENTRYPOINT, ''/bin/sh -c '' @ ''''), (EENV_DONT_RUN_CMD, ''true'')]
   \<and> map_of (fst (parse_entrypoint (EpStr ''''))) EENV_DONT_RUN_CMD \<noteq> Some ''true''"
  by (simp add: builder_constants)

text \<open>
  Claim C2, amended. An absent entrypoint yields exactly the empty original entrypoint.
  Every exec-form list \<open>exe # as\<close> yields the executable, a space, and the arguments each
  in double quotes and joined by spaces, and no don't-run flag (for a list of the
  executable alone that is the executable followed by one space). Every non-empty
  string \<open>s\<close> yields \<open>/bin/sh -c s\<close> together with the don't-run flag \<open>true\<close>. The empty
  string and the empty list are treated as an absent entrypoint.
\<close>

theorem parse_entrypoint_contract:
  "fst (parse_entrypoint EpNone) = [(EENV_ORIGINAL_ENTRYPOINT, '''')]
   \<and> fst (parse_entrypoint (EpList (exe # as))) =
         [(EENV_ORIGINAL_ENTRYPOINT, exe @ '' '' @ join '' '' (map quoted as))]
   \<and> map_of (fst (parse_entrypoint (EpList (exe # as)))) EENV_DONT_RUN_CMD = None
   \<and> (s \<noteq> '''' \<longrightarrow>
         fst (parse_entrypoint (EpStr s)) =
           [(EENV_ORIGINAL_ENTRYPOINT, ''/bin/sh -c '' @ s), (EENV_DONT_RUN_CMD, ''true'')])
   \<and> fst (parse_entrypoint (EpStr '''')) = [(EENV_ORIGINAL_ENTRYPOINT, '''')]
   \<and> fst (parse_entrypoint (EpList [])) = [(EENV_ORIGINAL_ENTRYPOINT, '''')]"
  by (cases s) (simp_all add: builder_constants)

text \<open>The two examples of the specification, through the theorem.\<close>

theorem parse_entrypoint_contract_witness:
  "''echo hi'' \<noteq> ''''
   \<and> fst (parse_entrypoint (EpStr ''echo hi'')) =
       [(''RIPTIDE__DOCKER_ORIGINAL_ENTRYPOINT'', ''/bin/sh -c echo hi''),
        (''RIPTIDE__DOCKER_DONT_RUN_CMD'', ''true'')]
   \<and> fst (parse_entrypoint (EpList [''/bin/foo'', ''a'', ''b''])) =
       [(''RIPTIDE__DOCKER_ORIGINAL_ENTRYPOINT'', ''/bin/foo \"a\" \"b\"'')]"
  using parse_entrypoint_contract [of "''/bin/foo''" "[''a'', ''b'']" "''echo hi''"]
  by (simp add: builder_constants quoted_def)

text \<open>
  Claim C9. \<^verbatim>\<open>parse_entrypoint\<close> changes its argument: after the call on a non-empty
  exec-form list the caller's list holds the former arguments only, the executable is
  gone. An empty list, a string and an absent entrypoint are left as they were.
\<close>

theorem parse_entrypoint_pops_argument:
  "snd (parse_entrypoint (EpList (exe # as))) = EpList as
   \<and> snd (parse_entrypoint (EpList [])) = EpList []
   \<and> snd (parse_entrypoint (EpStr s)) = EpStr s
   \<and> snd (parse_entrypoint EpNone) = EpNone"
  by (cases s) simp_all

section \<open>Ports and privileges of a service\<close>

text \<open>Evaluating \<^const>\<open>str_int\<close> on a numeral.\<close>

lemma digits_nat_small: "n < 10 \<Longrightarrow> digits_nat n = [digit_char n]"
  by (simp add: digits_nat.simps)

lemma digits_nat_large:
  "10 \<le> n \<Longrightarrow> digits_nat n = digits_nat (n div 10) @ [digit_char (n mod 10)]"
  by (subst digits_nat.simps) simp

lemmas str_int_eval = str_int_def digits_nat_small digits_nat_large digit_char_def

lemma str_int_examples:
  "str_int 0 = ''0''" "str_int 100 = ''100''" "str_int 1000 = ''1000''"
  "str_int 8080 = ''8080''" "str_int 30005 = ''30005''" "str_int (- 12) = ''-12''"
  by (simp_all add: str_int_eval)

text \<open>
  Claim C6. The privilege variables of a service: the target user and group are the
  invoking user's uid and gid, and they are emitted exactly when the service does not
  disable user creation. When the service asks to run as the current user, the
  run-main-as-user flag is \<open>yes\<close> and no user to run as is emitted. Otherwise, when the
  image metadata declares a non-empty default user, the flag is \<open>yes\<close> and the user to
  run as is that string. Otherwise neither of the two is emitted. No other variable is
  emitted.
\<close>

theorem user_settings_rule:
  "(let e = service_collect_entrypoint_user_settings s uid gid ic;
        declared_user = (case User ic of Some u \<Rightarrow> u \<noteq> '''' | None \<Rightarrow> False)
    in (\<not> svc_dont_create_user s \<longrightarrow>
          map_of e EENV_USER = Some (str_int uid) \<and> map_of e EENV_GROUP = Some (str_int gid))
     \<and> (svc_dont_create_user s \<longrightarrow> map_of e EENV_USER = None \<and> map_of e EENV_GROUP = None)
     \<and> (svc_run_as_current_user s \<longrightarrow>
          map_of e EENV_RUN_MAIN_CMD_AS_USER = Some ''yes'' \<and> map_of e EENV_USER_RUN = None)
     \<and> (\<not> svc_run_as_current_user s \<and> declared_user \<longrightarrow>
          map_of e EENV_RUN_MAIN_CMD_AS_USER = Some ''yes'' \<and> map_of e EENV_USER_RUN = User ic)
     \<and> (\<not> svc_run_as_current_user s \<and> \<not> declared_user \<longrightarrow>
          map_of e EENV_RUN_MAIN_CMD_AS_USER = None \<and> map_of e EENV_USER_RUN = None)
     \<and> fst ` set e \<subseteq> {EENV_USER, EENV_GROUP, EENV_RUN_MAIN_CMD_AS_USER, EENV_USER_RUN})"
  by (auto simp: service_collect_entrypoint_user_settings_def Let_def builder_constants
           split: option.splits)

text \<open>
  The rule at three inputs: a declared image user, a service that runs as the current
  user and creates no user, and an image whose declared user is the empty string.
\<close>

theorem user_settings_rule_witness:
  "map_of (service_collect_entrypoint_user_settings demo_service 1000 100 demo_image)
       ''RIPTIDE__DOCKER_USER'' = Some ''1000''
   \<and> map_of (service_collect_entrypoint_user_settings demo_service 1000 100 demo_image)
       ''RIPTIDE__DOCKER_GROUP'' = Some ''100''
   \<and> map_of (service_collect_entrypoint_user_settings demo_service 1000 100 demo_image)
       ''RIPTIDE__DOCKER_RUN_MAIN_CMD_AS_USER'' = Some ''yes''
   \<and> map_of (service_collect_entrypoint_user_settings demo_service 1000 100 demo_image)
       ''RIPTIDE__DOCKER_USER_RUN'' = Some ''www-data''
   \<and> map_of (service_collect_entrypoint_user_settings
         (demo_service\<lparr>svc_dont_create_user := True, svc_run_as_current_user := True\<rparr>)
         1000 100 demo_image) ''RIPTIDE__DOCKER_USER'' = None
   \<and> map_of (service_collect_entrypoint_user_settings
         (demo_service\<lparr>svc_dont_create_user := True, svc_run_as_current_user := True\<rparr>)
         1000 100 demo_image) ''RIPTIDE__DOCKER_RUN_MAIN_CMD_AS_USER'' = Some ''yes''
   \<and> map_of (service_collect_entrypoint_user_settings
         (demo_service\<lparr>svc_dont_create_user := True, svc_run_as_current_user := True\<rparr>)
         1000 100 demo_image) ''RIPTIDE__DOCKER_USER_RUN'' = None
   \<and> map_of (service_collect_entrypoint_user_settings demo_service 1000 100
         (demo_image\<lparr>User := Some ''''\<rparr>)) ''RIPTIDE__DOCKER_RUN_MAIN_CMD_AS_USER'' = None"
  using user_settings_rule [of demo_service 1000 100 demo_image]
    user_settings_rule [of
      "demo_service\<lparr>svc_dont_create_user := True, svc_run_as_current_user := True\<rparr>"
      1000 100 demo_image]
    user_settings_rule [of demo_service 1000 100 "demo_image\<lparr>User := Some ''''\<rparr>"]
  by (simp add: Let_def builder_constants demo_service_def demo_image_def str_int_examples)

text \<open>
  Claim C4. \<^verbatim>\<open>service_add_main_port\<close> leaves the builder as it is when the service
  declares no primary port. When the service declares the port \<open>p\<close> and the allocator,
  probed from the fixed base, returns \<open>h\<close>, the label dictionary is the old one with the
  assigned-port key set to the string of \<open>h\<close>, the port dictionary is the old one with
  \<open>p\<close> mapped to \<open>h\<close>, and nothing else of the builder changes.
\<close>

theorem add_main_port_effect:
  "(svc_port s = None \<longrightarrow> service_add_main_port alloc s b = b)
   \<and> (svc_port s = Some p \<longrightarrow>
        (let h = alloc DOCKER_ENGINE_HTTP_PORT_BND_START; b' = service_add_main_port alloc s b
         in map_of (labels b') = (map_of (labels b))(RIPTIDE_DOCKER_LABEL_HTTP_PORT \<mapsto> str_int h)
          \<and> map_of (ports b') = (map_of (ports b))(p \<mapsto> h)
          \<and> b'\<lparr>labels := labels b, ports := ports b\<rparr> = b))"
  by (simp add: service_add_main_port_def Let_def set_label_def set_port_def update_conv')

text \<open>
  The example of the specification: port 8080 and an allocator that answers 30005, on a
  fresh builder; and a service without a port.
\<close>

theorem add_main_port_effect_witness:
  "map_of (labels (service_add_main_port (\<lambda>base. 30005) demo_service demo_builder)) =
     [''riptide'' \<mapsto> ''1'', ''riptide_port'' \<mapsto> ''30005'']
   \<and> map_of (ports (service_add_main_port (\<lambda>base. 30005) demo_service demo_builder)) =
     [8080 \<mapsto> 30005]
   \<and> service_add_main_port (\<lambda>base. 30005) (demo_service\<lparr>svc_port := None\<rparr>) demo_builder =
     demo_builder"
  using add_main_port_effect [of demo_service "\<lambda>base. 30005" demo_builder 8080]
    add_main_port_effect [of "demo_service\<lparr>svc_port := None\<rparr>" "\<lambda>base. 30005" demo_builder 8080]
  by (simp add: Let_def builder_constants demo_service_def demo_builder_def ContainerBuilder_def
        set_label_def str_int_examples)

section \<open>Looking up the address of a service\<close>

text \<open>
  The claim that \<^verbatim>\<open>address_for\<close> never propagates an exception fails twice. For a
  service name that the project does not declare, the subscript on the declared services
  raises \<^verbatim>\<open>KeyError\<close> before the \<^verbatim>\<open>try\<close> block is entered. For a declared service with a
  port, an exception of the backend that is neither an \<^verbatim>\<open>APIError\<close> nor a \<^verbatim>\<open>KeyError\<close>,
  here the connection error of a daemon that cannot be reached, passes both \<^verbatim>\<open>except\<close>
  clauses.
\<close>

theorem address_for_undeclared_counterexample:
  "address_for (\<lambda>n. Inl APIError) demo_project ''db'' = Inl KeyError
   \<and> address_for (\<lambda>n. Inl (OtherError ''ConnectionError'')) demo_project ''web'' =
       Inl (OtherError ''ConnectionError'')"
  by (simp add: address_for_def demo_project_def demo_service_def)

text \<open>
  Claim C7, amended. For a service name that the project declares, \<^verbatim>\<open>address_for\<close>
  returns a host and a port exactly when the service declares a primary port, the
  backend returns a container for the derived service-container name, that container is
  running and it carries the assigned-port label; the host is \<open>127.0.0.1\<close> and the port
  is the label's value. It raises exactly when the service declares a port and the
  backend raises an exception that is neither an \<^verbatim>\<open>APIError\<close> nor a \<^verbatim>\<open>KeyError\<close>, and then
  it raises that exception. In every other case, among them a backend that raises
  \<^verbatim>\<open>APIError\<close> or \<^verbatim>\<open>KeyError\<close>, the result is \<^verbatim>\<open>None\<close>. For a name that the project does not
  declare, and for a project without a services section, it raises \<^verbatim>\<open>KeyError\<close>.
\<close>

theorem address_for_declared:
  "((proj_services project = None
      \<or> (\<exists>services. proj_services project = Some services \<and> map_of services service_name = None))
     \<longrightarrow> address_for containers_get project service_name = Inl KeyError)
   \<and> (proj_services project = Some services \<and> map_of services service_name = Some s \<longrightarrow>
        (address_for containers_get project service_name = Inr (Some (host, port)) \<longleftrightarrow>
           svc_port s \<noteq> None
           \<and> (\<exists>c. containers_get (get_service_container_name (proj_name project) service_name) = Inr c
                  \<and> status c = ''running''
                  \<and> map_of (container_labels c) RIPTIDE_DOCKER_LABEL_HTTP_PORT = Some port)
           \<and> host = ''127.0.0.1'')
      \<and> (address_for containers_get project service_name = Inl e \<longleftrightarrow>
           svc_port s \<noteq> None
           \<and> containers_get (get_service_container_name (proj_name project) service_name) = Inl e
           \<and> e \<noteq> KeyError \<and> e \<noteq> APIError)
      \<and> ((\<nexists>hp. address_for containers_get project service_name = Inr (Some hp))
           \<and> (\<nexists>x. address_for containers_get project service_name = Inl x)
          \<longrightarrow> address_for containers_get project service_name = Inr None))"
  by (auto simp: address_for_def Let_def
           split: sum.splits py_exception.splits option.splits)

text \<open>
  A declared service with a running, labelled container; the same service when the
  backend raises its API error; when the container is not running; and an undeclared
  name.
\<close>

theorem address_for_declared_witness:
  "address_for
      (\<lambda>n. if n = ''riptide__demo__web''
           then Inr \<lparr>status = ''running'', container_labels = [(''riptide_port'', ''30005'')]\<rparr>
           else Inl APIError)
      demo_project ''web'' = Inr (Some (''127.0.0.1'', ''30005''))
   \<and> address_for (\<lambda>n. Inl APIError) demo_project ''web'' = Inr None
   \<and> address_for (\<lambda>n. Inr \<lparr>status = ''exited'', container_labels = [(''riptide_port'', ''30005'')]\<rparr>)
        demo_project ''web'' = Inr None
   \<and> address_for (\<lambda>n. Inl APIError) bare_project ''web'' = Inl KeyError"
proof -
  have d: "proj_services demo_project = Some [(''web'', demo_service)]
      \<and> map_of [(''web'', demo_service)] ''web'' = Some demo_service"
    by (simp add: demo_project_def)
  have port: "svc_port demo_service \<noteq> None"
    by (simp add: demo_service_def)
  have name: "get_service_container_name (proj_name demo_project) ''web'' = ''riptide__demo__web''"
    by (simp add: get_service_container_name_def demo_project_def)
  note c2 = conjunct2
  let ?g1 = "\<lambda>n. if n = ''riptide__demo__web''
           then Inr \<lparr>status = ''running'', container_labels = [(''riptide_port'', ''30005'')]\<rparr>
           else Inl APIError"
  let ?g3 = "\<lambda>n::string. Inr \<lparr>status = ''exited'', container_labels = [(''riptide_port'', ''30005'')]\<rparr>
               :: py_exception + container"
  from address_for_declared [of demo_project "''web''" ?g1 "[(''web'', demo_service)]" demo_service
      "''127.0.0.1''" "''30005''", THEN c2] d port name
  have "address_for ?g1 demo_project ''web'' = Inr (Some (''127.0.0.1'', ''30005''))"
    by (simp add: builder_constants)
  moreover
  from address_for_declared [of demo_project "''web''" "\<lambda>n. Inl APIError"
      "[(''web'', demo_service)]" demo_service, THEN c2] d
  have "address_for (\<lambda>n. Inl APIError) demo_project ''web'' = Inr None"
    by simp
  moreover
  from address_for_declared [of demo_project "''web''" ?g3
      "[(''web'', demo_service)]" demo_service, THEN c2] d
  have "address_for ?g3 demo_project ''web'' = Inr None"
    by simp
  moreover
  from address_for_declared [of bare_project "''web''" "\<lambda>n. Inl APIError", THEN conjunct1]
  have "address_for (\<lambda>n. Inl APIError) bare_project ''web'' = Inl KeyError"
    by (simp add: bare_project_def)
  ultimately show ?thesis by blast
qed

section \<open>Starting the services of a project\<close>








section \<open>The dictionaries of the builder\<close>

lemma dict_update_map_of: "map_of (dict_update d ws) = map_of d ++ map_of (rev ws)"
proof (induction ws arbitrary: d)
  case Nil
  show ?case by (simp add: dict_update_def)
next
  case (Cons w ws)
  have step: "dict_update d (w # ws) = dict_update (AList.update (fst w) (snd w) d) ws"
    by (simp add: dict_update_def)
  show ?case
    unfolding step Cons.IH
    by (rule ext) (auto simp: update_conv' map_add_def split: option.splits)
qed

lemma dict_update_last_write:
  "map_of (dict_update d ws) k =
     (case last_write ws k of Some v \<Rightarrow> Some v | None \<Rightarrow> map_of d k)"
  by (simp add: dict_update_map_of last_write_def map_add_def)

lemma last_write_filter_key:
  "last_write (filter (\<lambda>kv. fst kv = k) ws) k = last_write ws k"
  unfolding last_write_def
  by (induction ws) (auto simp: map_add_def split: option.splits)

lemma env_run_map_calls: "env (run_map_calls cs b) = dict_update (env b) (env_writes cs)"
proof (induction cs arbitrary: b)
  case Nil
  show ?case by (simp add: run_map_calls_def dict_update_def)
next
  case (Cons c cs)
  have "run_map_calls (c # cs) b = run_map_calls cs (map_call_apply c b)"
    by (simp add: run_map_calls_def)
  with Cons.IH show ?case
    by (cases c)
       (simp_all add: dict_update_def set_env_def set_label_def set_mount_def set_port_def)
qed

lemma labels_run_map_calls:
  "labels (run_map_calls cs b) = dict_update (labels b) (label_writes cs)"
proof (induction cs arbitrary: b)
  case Nil
  show ?case by (simp add: run_map_calls_def dict_update_def)
next
  case (Cons c cs)
  have "run_map_calls (c # cs) b = run_map_calls cs (map_call_apply c b)"
    by (simp add: run_map_calls_def)
  with Cons.IH show ?case
    by (cases c)
       (simp_all add: dict_update_def set_env_def set_label_def set_mount_def set_port_def)
qed

lemma mounts_run_map_calls:
  "mounts (run_map_calls cs b) = dict_update (mounts b) (mount_writes cs)"
proof (induction cs arbitrary: b)
  case Nil
  show ?case by (simp add: run_map_calls_def dict_update_def)
next
  case (Cons c cs)
  have "run_map_calls (c # cs) b = run_map_calls cs (map_call_apply c b)"
    by (simp add: run_map_calls_def)
  with Cons.IH show ?case
    by (cases c)
       (simp_all add: dict_update_def set_env_def set_label_def set_mount_def set_port_def)
qed

lemma ports_run_map_calls:
  "ports (run_map_calls cs b) = dict_update (ports b) (port_writes cs)"
proof (induction cs arbitrary: b)
  case Nil
  show ?case by (simp add: run_map_calls_def dict_update_def)
next
  case (Cons c cs)
  have "run_map_calls (c # cs) b = run_map_calls cs (map_call_apply c b)"
    by (simp add: run_map_calls_def)
  with Cons.IH show ?case
    by (cases c)
       (simp_all add: dict_update_def set_env_def set_label_def set_mount_def set_port_def)
qed

lemma env_writes_filter:
  "env_writes (filter (\<lambda>c. key_of_call c = EnvKey k) cs) =
     filter (\<lambda>kv. fst kv = k) (env_writes cs)"
  by (induction cs rule: env_writes.induct) auto

lemma label_writes_filter:
  "label_writes (filter (\<lambda>c. key_of_call c = LabelKey k) cs) =
     filter (\<lambda>kv. fst kv = k) (label_writes cs)"
  by (induction cs rule: label_writes.induct) auto

lemma mount_writes_filter:
  "mount_writes (filter (\<lambda>c. key_of_call c = MountKey k) cs) =
     filter (\<lambda>kv. fst kv = k) (mount_writes cs)"
  by (induction cs rule: mount_writes.induct) auto

lemma port_writes_filter:
  "port_writes (filter (\<lambda>c. key_of_call c = PortKey k) cs) =
     filter (\<lambda>kv. fst kv = k) (port_writes cs)"
  by (induction cs rule: port_writes.induct) auto

lemma same_last_writes:
  "(\<forall>k. last_write ws k = last_write ws' k) \<Longrightarrow>
     map_of (dict_update d ws) = map_of (dict_update d ws')"
  by (rule ext) (simp add: dict_update_last_write)
text \<open>
  Claim C8. After any sequence of \<^verbatim>\<open>set_env\<close>, \<^verbatim>\<open>set_label\<close>, \<^verbatim>\<open>set_mount\<close> and \<^verbatim>\<open>set_port\<close>
  calls, each of the four dictionaries maps a key to the value of the last call on that
  key, and to what the builder held before when there was no such call. The value under
  a key is the same when every call on another key is dropped from the sequence. Two
  sequences whose last values agree on every key leave dictionaries with the same
  content, whatever the order of their calls.
\<close>

theorem map_calls_last_write_wins:
  "(map_of (env (run_map_calls cs b)) k =
      (case last_write (env_writes cs) k of Some v \<Rightarrow> Some v | None \<Rightarrow> map_of (env b) k))
   \<and> (map_of (labels (run_map_calls cs b)) k =
      (case last_write (label_writes cs) k of Some v \<Rightarrow> Some v | None \<Rightarrow> map_of (labels b) k))
   \<and> (map_of (mounts (run_map_calls cs b)) k =
      (case last_write (mount_writes cs) k of Some v \<Rightarrow> Some v | None \<Rightarrow> map_of (mounts b) k))
   \<and> (map_of (ports (run_map_calls cs b)) p =
      (case last_write (port_writes cs) p of Some v \<Rightarrow> Some v | None \<Rightarrow> map_of (ports b) p))
   \<and> map_of (env (run_map_calls cs b)) k =
       map_of (env (run_map_calls (filter (\<lambda>c. key_of_call c = EnvKey k) cs) b)) k
   \<and> map_of (labels (run_map_calls cs b)) k =
       map_of (labels (run_map_calls (filter (\<lambda>c. key_of_call c = LabelKey k) cs) b)) k
   \<and> map_of (mounts (run_map_calls cs b)) k =
       map_of (mounts (run_map_calls (filter (\<lambda>c. key_of_call c = MountKey k) cs) b)) k
   \<and> map_of (ports (run_map_calls cs b)) p =
       map_of (ports (run_map_calls (filter (\<lambda>c. key_of_call c = PortKey p) cs) b)) p
   \<and> ((\<forall>x. last_write (env_writes cs) x = last_write (env_writes cs') x) \<longrightarrow>
        map_of (env (run_map_calls cs b)) = map_of (env (run_map_calls cs' b)))
   \<and> ((\<forall>x. last_write (label_writes cs) x = last_write (label_writes cs') x) \<longrightarrow>
        map_of (labels (run_map_calls cs b)) = map_of (labels (run_map_calls cs' b)))
   \<and> ((\<forall>x. last_write (mount_writes cs) x = last_write (mount_writes cs') x) \<longrightarrow>
        map_of (mounts (run_map_calls cs b)) = map_of (mounts (run_map_calls cs' b)))
   \<and> ((\<forall>x. last_write (port_writes cs) x = last_write (port_writes cs') x) \<longrightarrow>
        map_of (ports (run_map_calls cs b)) = map_of (ports (run_map_calls cs' b)))"
proof -
  have wins:
    "map_of (env (run_map_calls cs b)) k =
      (case last_write (env_writes cs) k of Some v \<Rightarrow> Some v | None \<Rightarrow> map_of (env b) k)"
    "map_of (labels (run_map_calls cs b)) k =
      (case last_write (label_writes cs) k of Some v \<Rightarrow> Some v | None \<Rightarrow> map_of (labels b) k)"
    "map_of (mounts (run_map_calls cs b)) k =
      (case last_write (mount_writes cs) k of Some v \<Rightarrow> Some v | None \<Rightarrow> map_of (mounts b) k)"
    "map_of (ports (run_map_calls cs b)) p =
      (case last_write (port_writes cs) p of Some v \<Rightarrow> Some v | None \<Rightarrow> map_of (ports b) p)"
    by (simp_all only: env_run_map_calls labels_run_map_calls mounts_run_map_calls
          ports_run_map_calls dict_update_last_write)
  have apart:
    "map_of (env (run_map_calls cs b)) k =
       map_of (env (run_map_calls (filter (\<lambda>c. key_of_call c = EnvKey k) cs) b)) k"
    "map_of (labels (run_map_calls cs b)) k =
       map_of (labels (run_map_calls (filter (\<lambda>c. key_of_call c = LabelKey k) cs) b)) k"
    "map_of (mounts (run_map_calls cs b)) k =
       map_of (mounts (run_map_calls (filter (\<lambda>c. key_of_call c = MountKey k) cs) b)) k"
    "map_of (ports (run_map_calls cs b)) p =
       map_of (ports (run_map_calls (filter (\<lambda>c. key_of_call c = PortKey p) cs) b)) p"
    by (simp_all only: env_run_map_calls labels_run_map_calls mounts_run_map_calls
          ports_run_map_calls dict_update_last_write env_writes_filter label_writes_filter
          mount_writes_filter port_writes_filter last_write_filter_key)
  have order:
    "(\<forall>x. last_write (env_writes cs) x = last_write (env_writes cs') x) \<longrightarrow>
        map_of (env (run_map_calls cs b)) = map_of (env (run_map_calls cs' b))"
    "(\<forall>x. last_write (label_writes cs) x = last_write (label_writes cs') x) \<longrightarrow>
        map_of (labels (run_map_calls cs b)) = map_of (labels (run_map_calls cs' b))"
    "(\<forall>x. last_write (mount_writes cs) x = last_write (mount_writes cs') x) \<longrightarrow>
        map_of (mounts (run_map_calls cs b)) = map_of (mounts (run_map_calls cs' b))"
    "(\<forall>x. last_write (port_writes cs) x = last_write (port_writes cs') x) \<longrightarrow>
        map_of (ports (run_map_calls cs b)) = map_of (ports (run_map_calls cs' b))"
    unfolding env_run_map_calls labels_run_map_calls mounts_run_map_calls ports_run_map_calls
    by (blast intro: same_last_writes)+
  from wins apart order show ?thesis
    by blast
qed

text \<open>
  Two orders of the same final writes, one of them with an overwritten value: the
  content is the same, and the last call on each key is the one that shows.
\<close>

theorem map_calls_last_write_wins_witness:
  "map_of (env (run_map_calls
       [SetEnv ''A'' ''0'', SetPort 80 8080, SetEnv ''B'' ''2'', SetMount ''/h'' ''/c'' ''ro'',
        SetEnv ''A'' ''1'', SetLabel ''l'' ''x''] demo_builder)) =
   map_of (env (run_map_calls
       [SetLabel ''l'' ''x'', SetEnv ''B'' ''2'', SetEnv ''A'' ''1'', SetPort 80 8080,
        SetMount ''/h'' ''/c'' ''ro''] demo_builder))
   \<and> map_of (env (run_map_calls
       [SetEnv ''A'' ''0'', SetPort 80 8080, SetEnv ''B'' ''2'', SetMount ''/h'' ''/c'' ''ro'',
        SetEnv ''A'' ''1'', SetLabel ''l'' ''x''] demo_builder)) ''A'' = Some ''1''
   \<and> map_of (labels (run_map_calls
       [SetEnv ''A'' ''0'', SetPort 80 8080, SetEnv ''B'' ''2'', SetMount ''/h'' ''/c'' ''ro'',
        SetEnv ''A'' ''1'', SetLabel ''l'' ''x''] demo_builder)) ''riptide'' = Some ''1''
   \<and> map_of (ports (run_map_calls
       [SetEnv ''A'' ''0'', SetPort 80 8080, SetEnv ''B'' ''2'', SetMount ''/h'' ''/c'' ''ro'',
        SetEnv ''A'' ''1'', SetLabel ''l'' ''x''] demo_builder)) 80 = Some 8080"
proof -
  let ?cs = "[SetEnv ''A'' ''0'', SetPort 80 8080, SetEnv ''B'' ''2'', SetMount ''/h'' ''/c'' ''ro'',
        SetEnv ''A'' ''1'', SetLabel ''l'' ''x'']"
  let ?cs' = "[SetLabel ''l'' ''x'', SetEnv ''B'' ''2'', SetEnv ''A'' ''1'', SetPort 80 8080,
        SetMount ''/h'' ''/c'' ''ro'']"
  have agree: "\<forall>x. last_write (env_writes ?cs) x = last_write (env_writes ?cs') x"
    by (simp add: last_write_def)
  note inst = map_calls_last_write_wins [of ?cs demo_builder _ 80 ?cs']
  note c2 = conjunct2
  from inst [of "''A''", THEN c2, THEN c2, THEN c2, THEN c2, THEN c2, THEN c2, THEN c2, THEN c2,
      THEN conjunct1] agree
  have "map_of (env (run_map_calls ?cs demo_builder)) = map_of (env (run_map_calls ?cs' demo_builder))"
    by blast
  moreover from inst [of "''A''", THEN conjunct1]
  have "map_of (env (run_map_calls ?cs demo_builder)) ''A'' = Some ''1''"
    by (simp add: last_write_def)
  moreover from inst [of "''riptide''", THEN c2, THEN conjunct1]
  have "map_of (labels (run_map_calls ?cs demo_builder)) ''riptide'' = Some ''1''"
    by (simp add: last_write_def demo_builder_def ContainerBuilder_def set_label_def
          builder_constants)
  moreover from inst [of "''A''", THEN c2, THEN c2, THEN c2, THEN conjunct1]
  have "map_of (ports (run_map_calls ?cs demo_builder)) 80 = Some 8080"
    by (simp add: last_write_def)
  ultimately show ?thesis by blast
qed

section \<open>The two emission paths\<close>






text \<open>
  Claim C3. The consistency suffix \<open>:delegated\<close> is meant for the Mac: the source says
  so above the platform test and at the consistency setting of \<^verbatim>\<open>set_mount\<close>. The test is
  whether the lower-cased \<^verbatim>\<open>platform.system()\<close> starts with \<open>mac\<close>. On macOS that string
  is \<open>Darwin\<close>, and there the mount token ends with the mode, as it does on Linux; the
  suffix appears only for a system name that starts with \<open>mac\<close>.
\<close>

theorem cli_mount_suffix_on_darwin:
  "build_docker_cli ''Darwin'' (set_mount ''/h'' ''/c'' ''rw'' demo_builder) =
     [''docker'', ''run'', ''--rm'', ''-it'', ''--label'', ''riptide=1'',
      ''-v'', ''/h:/c:rw'', ''img'', ''ls '']
   \<and> build_docker_cli ''Darwin'' (set_mount ''/h'' ''/c'' ''rw'' demo_builder) =
       build_docker_cli ''Linux'' (set_mount ''/h'' ''/c'' ''rw'' demo_builder)
   \<and> build_docker_cli ''MacOS'' (set_mount ''/h'' ''/c'' ''rw'' demo_builder) =
     [''docker'', ''run'', ''--rm'', ''-it'', ''--label'', ''riptide=1'',
      ''-v'', ''/h:/c:rw:delegated'', ''img'', ''ls '']"
  by (simp add: build_docker_cli_def Let_def demo_builder_def ContainerBuilder_def
        set_label_def set_mount_def startswith_def lower_def lower_char_def builder_constants)

section \<open>The is-managed marker label\<close>

lemma labels_set_envs: "labels (set_envs items b) = labels b"
  unfolding set_envs_def by (induction items arbitrary: b) (simp_all add: set_env_def)

lemma labels_set_volumes: "labels (set_volumes items b) = labels b"
  unfolding set_volumes_def by (induction items arbitrary: b) (simp_all add: set_mount_def)

lemma labels_set_ports: "labels (set_ports items b) = labels b"
  unfolding set_ports_def by (induction items arbitrary: b) (simp_all add: set_port_def)

lemma labels_set_labels: "labels (set_labels items b) = dict_update (labels b) items"
  unfolding set_labels_def dict_update_def
  by (induction items arbitrary: b) (simp_all add: set_label_def)

lemma labels_enable_riptide_entrypoint:
  "labels (fst (enable_riptide_entrypoint script ic b)) = labels b"
  by (simp add: enable_riptide_entrypoint_def Let_def set_entrypoint_def labels_set_envs
        set_mount_def)

lemma labels_init_common: "labels (fst (init_common script vols environ ic b)) = labels b"
  by (simp add: init_common_def Let_def labels_set_envs labels_set_volumes
        labels_enable_riptide_entrypoint)

lemma marker_in_service_labels:
  "last_write (service_collect_labels s pn) RIPTIDE_DOCKER_LABEL_IS_RIPTIDE = Some ''1''"
  by (simp add: service_collect_labels_def last_write_def Let_def builder_constants
           split: option.splits)

lemma marker_after_init_from_service:
  "map_of (labels (fst (init_from_service script uid gid s ic b))) RIPTIDE_DOCKER_LABEL_IS_RIPTIDE =
     Some ''1''"
  by (simp add: init_from_service_def Let_def labels_set_ports labels_set_labels
        dict_update_last_write marker_in_service_labels)

lemma marker_kept_by_call:
  assumes "map_of (labels b) RIPTIDE_DOCKER_LABEL_IS_RIPTIDE = Some ''1''"
    and "\<not> overwrites_marker c"
  shows "map_of (labels (builder_call_apply c b)) RIPTIDE_DOCKER_LABEL_IS_RIPTIDE = Some ''1''"
proof (cases c)
  case (MapCall m)
  with assms show ?thesis
    by (cases m)
       (simp_all add: set_env_def set_label_def set_mount_def set_port_def update_conv')
next
  case (ServiceAddMainPort alloc s)
  with assms show ?thesis
    by (simp add: service_add_main_port_def Let_def set_label_def set_port_def update_conv'
          builder_constants split: option.splits)
next
  case (InitFromService script uid gid s ic)
  then show ?thesis by (simp add: marker_after_init_from_service)
qed (use assms in \<open>simp_all add: set_network_def set_name_def set_entrypoint_def set_args_def
      set_workdir_def set_hostname_def labels_enable_riptide_entrypoint init_from_command_def
      labels_init_common\<close>)

lemma marker_kept_by_calls:
  "map_of (labels b) RIPTIDE_DOCKER_LABEL_IS_RIPTIDE = Some ''1'' \<Longrightarrow>
   \<forall>c \<in> set cs. \<not> overwrites_marker c \<Longrightarrow>
   map_of (labels (run_builder_calls cs b)) RIPTIDE_DOCKER_LABEL_IS_RIPTIDE = Some ''1''"
proof (induction cs arbitrary: b)
  case Nil
  then show ?case by (simp add: run_builder_calls_def)
next
  case (Cons c cs)
  have "run_builder_calls (c # cs) b = run_builder_calls cs (builder_call_apply c b)"
    by (simp add: run_builder_calls_def)
  with Cons show ?case
    by (simp add: marker_kept_by_call)
qed

lemma label_token_in_cli:
  assumes "(k, v) \<in> set (labels b)"
  shows "sublist [''--label'', k @ ''='' @ v] (build_docker_cli system b)"
proof -
  from assms obtain xs ys where split: "labels b = xs @ (k, v) # ys"
    by (auto simp: in_set_conv_decomp)
  let ?f = "\<lambda>(key, val). [''--label'', key @ ''='' @ val]"
  let ?ps = "[''docker'', ''run'', ''--rm'', ''-it'']
     @ cli_option ''--name'' (name b)
     @ cli_option ''--network'' (network b)
     @ cli_option ''--entrypoint'' (entrypoint b)
     @ cli_option ''-w'' (work_dir b)
     @ (if run_as_root b then [''-u'', str_int 0] else [])
     @ cli_option ''--hostname'' (hostname b)
     @ concat (map (\<lambda>(key, val). [''-e'', key @ ''='' @ val]) (env b))"
  let ?ss = "concat (map (\<lambda>(container, host). [''-p'', str_int host @ '':'' @ str_int container]) (ports b))
     @ concat (map (\<lambda>m. [''-v'', Source m @ '':'' @ Target m @ '':''
                @ (if ReadOnly m then ''ro'' else ''rw'')
                @ (if startswith (lower system) ''mac'' then '':delegated'' else [])])
          (map snd (mounts b)))
     @ [image b, str_of_command (command b) @ '' '' @ join '' '' (map quoted (args b))]"
  have whole: "build_docker_cli system b = ?ps @ concat (map ?f (labels b)) @ ?ss"
    by (simp add: build_docker_cli_def Let_def)
  have "concat (map ?f (labels b)) =
      concat (map ?f xs) @ [''--label'', k @ ''='' @ v] @ concat (map ?f ys)"
    by (simp add: split)
  with whole have "build_docker_cli system b =
      (?ps @ concat (map ?f xs)) @ [''--label'', k @ ''='' @ v] @ (concat (map ?f ys) @ ?ss)"
    by simp
  then show ?thesis
    unfolding sublist_def by blast
qed

text \<open>
  Claim C10. A freshly constructed builder carries the label \<open>riptide = 1\<close>. It keeps it
  through every sequence of builder calls none of which sets that label key itself, and
  for such a state the API bundle holds the label and the command line holds the tokens
  \<open>--label riptide=1\<close> next to each other. \<^verbatim>\<open>init_from_service\<close> sets the label to \<open>1\<close>
  whatever the builder held before.
\<close>

theorem marker_label_invariant:
  "map_of (labels (ContainerBuilder img cmd)) RIPTIDE_DOCKER_LABEL_IS_RIPTIDE = Some ''1''
   \<and> ((\<forall>c \<in> set cs. \<not> overwrites_marker c) \<longrightarrow>
        map_of (arg_labels (build_docker_api detach remove
                  (run_builder_calls cs (ContainerBuilder img cmd))))
          RIPTIDE_DOCKER_LABEL_IS_RIPTIDE = Some ''1''
        \<and> sublist [''--label'', ''riptide=1'']
             (build_docker_cli system (run_builder_calls cs (ContainerBuilder img cmd))))
   \<and> map_of (labels (fst (init_from_service script uid gid s ic b)))
        RIPTIDE_DOCKER_LABEL_IS_RIPTIDE = Some ''1''"
proof -
  have fresh: "map_of (labels (ContainerBuilder img cmd)) RIPTIDE_DOCKER_LABEL_IS_RIPTIDE = Some ''1''"
    by (simp add: ContainerBuilder_def set_label_def)
  have kept: "map_of (labels (run_builder_calls cs (ContainerBuilder img cmd)))
      RIPTIDE_DOCKER_LABEL_IS_RIPTIDE = Some ''1''"
    if "\<forall>c \<in> set cs. \<not> overwrites_marker c"
    using marker_kept_by_calls [OF fresh that] .
  have api: "map_of (arg_labels (build_docker_api detach remove
                  (run_builder_calls cs (ContainerBuilder img cmd))))
          RIPTIDE_DOCKER_LABEL_IS_RIPTIDE = Some ''1''"
    if "\<forall>c \<in> set cs. \<not> overwrites_marker c"
    using kept [OF that] by (simp add: build_docker_api_def Let_def)
  have cli: "sublist [''--label'', ''riptide=1'']
             (build_docker_cli system (run_builder_calls cs (ContainerBuilder img cmd)))"
    if "\<forall>c \<in> set cs. \<not> overwrites_marker c"
  proof -
    from kept [OF that]
    have "(''riptide'', ''1'') \<in> set (labels (run_builder_calls cs (ContainerBuilder img cmd)))"
      by (auto simp: builder_constants dest: map_of_SomeD)
    from label_token_in_cli [OF this, of system] show ?thesis by simp
  qed
  from fresh api cli marker_after_init_from_service [of script uid gid s ic b]
  show ?thesis by blast
qed
text \<open>The marker after a sequence of calls that never writes its key.\<close>

theorem marker_label_invariant_witness:
  "map_of (arg_labels (build_docker_api False True
       (run_builder_calls demo_calls (ContainerBuilder ''img'' (CmdStr ''ls''))))) ''riptide'' =
     Some ''1''
   \<and> sublist [''--label'', ''riptide=1'']
        (build_docker_cli ''Linux''
           (run_builder_calls demo_calls (ContainerBuilder ''img'' (CmdStr ''ls''))))
   \<and> map_of (labels (fst (init_from_service ''/assets/entrypoint.sh'' 1000 100 demo_service
        demo_image (set_label ''riptide'' ''0'' demo_builder)))) ''riptide'' = Some ''1''"
proof -
  have quiet: "\<forall>c \<in> set demo_calls. \<not> overwrites_marker c"
    by (simp add: demo_calls_def builder_constants)
  from marker_label_invariant [of "''img''" "CmdStr ''ls''" demo_calls False True "''Linux''"
      "''/assets/entrypoint.sh''" 1000 100 demo_service demo_image
      "set_label ''riptide'' ''0'' demo_builder"] quiet
  show ?thesis
    by (simp add: builder_constants)
qed

end
